theory Spec2Isabelle
  imports Main "HOL-Library.Word"
begin

section \<open>The CM client of steam/core/cm.py\<close>

text \<open>
  The client object is a record of its attributes. Everything the client does to its
  collaborators (the logger, the event emitter it inherits from, gevent, the TCP
  connection) is appended to a trace, oldest event first. The collaborators whose
  code is in other modules (message classes, crypto, zipfile, the EMsg enumeration,
  the blocking wait of the event emitter) are the fields of an environment record.
\<close>

subsection \<open>Data\<close>

type_synonym byte = "8 word"
type_synonym bytes = "byte list"

text \<open>
  Modelled from the spec: the enumerations EMsg, EResult and EUniverse
  (steam.enums) are not in cm.py. Only the members cm.py names are told apart; every
  other member is an "other" value.
\<close>

datatype emsg =
    Multi
  | ClientHeartBeat
  | ClientLogOnResponse
  | ChannelEncryptRequest
  | ChannelEncryptResponse
  | ChannelEncryptResult
  | EMsg_other nat

datatype eresult = OK | ServiceUnavailable | TryAnotherCM | EResult_other nat

datatype euniverse = Public | EUniverse_other nat

datatype steamid = SteamID nat

text \<open>The exceptions a call can end with.\<close>

datatype exn =
    RuntimeError string
  | ValueError string
  | StructError
  | AttributeError
  | UnboundLocalError string
  | Other_exception nat

text \<open>
  A message: its type, whether it is a MsgProto, the header fields and the identity
  attributes cm.py reads and writes, and the body. The body is dynamically typed in
  the source; the fields cm.py reads are named in the comments.
\<close>

record header =
  steamid :: nat
  client_sessionid :: int

datatype body =
    ChannelEncryptRequest_body int euniverse bytes
      \<comment> \<open>protocolVersion, universe, challenge\<close>
  | ChannelEncryptResponse_body bytes int
      \<comment> \<open>key, crc\<close>
  | ChannelEncryptResult_body eresult
      \<comment> \<open>eresult\<close>
  | CMsgMulti int bytes
      \<comment> \<open>size_unzipped, message_body\<close>
  | CMsgClientLogonResponse eresult int
      \<comment> \<open>eresult, out_of_game_heartbeat_seconds\<close>
  | Body_other bytes

record msg =
  msg_type :: emsg
  proto :: bool
  header :: header
  steamID :: "steamid option"
  sessionID :: "int option"
  body :: body

text \<open>What the client does to the outside, in the order it does it.\<close>

datatype task = Connect_task | Disconnect_task | Recv_messages_task | Heartbeat_task int

datatype event_key = EMsg_key emsg | Name_key string | No_event

datatype level = Debug | Fatal

datatype event =
    Log level string
  | Log_exception exn
  | Emit event_key "msg list"
  | Spawn nat task
  | Kill nat
  | Connection_disconnect
  | Put_message bytes

text \<open>
  The attributes of CMClient. A greenlet is the number gevent.spawn gave it;
  \<open>spawned\<close> counts the greenlets spawned so far.
\<close>

record cmclient =
  verbose_debug :: bool
  connected :: bool
  key :: "bytes option"
  hmac_secret :: "bytes option"
  steam_id :: "steamid option"
  session_id :: "int option"
  recv_loop :: "nat option"
  heartbeat_loop :: "nat option"
  trace :: "event list"
  spawned :: nat

subsection \<open>Effects\<close>

definition effect :: "cmclient \<Rightarrow> event \<Rightarrow> cmclient" where
  "effect s e = s\<lparr>trace := trace s @ [e]\<rparr>"

text \<open>gevent.spawn: the new greenlet's handle and the client afterwards.\<close>

definition spawn :: "cmclient \<Rightarrow> task \<Rightarrow> nat \<times> cmclient" where
  "spawn s t = (spawned s, s\<lparr>trace := trace s @ [Spawn (spawned s) t], spawned := Suc (spawned s)\<rparr>)"

text \<open>
  CMClient.emit: a debug line unless the event is None, then the emitter of the base
  class. The handlers the base class runs are not part of this function.
\<close>

definition emit :: "cmclient \<Rightarrow> event_key \<Rightarrow> msg list \<Rightarrow> cmclient" where
  "emit s event args =
     (let s1 = (if event \<noteq> No_event then effect s (Log Debug ''Emit event: %s'') else s)
      in effect s1 (Emit event args))"

subsection \<open>Construction, reset and disconnect\<close>

definition init_attributes :: "cmclient \<Rightarrow> cmclient" where
  "init_attributes s =
     s\<lparr>connected := False,
       key := None,
       hmac_secret := None,
       steam_id := None,
       session_id := None,
       recv_loop := None,
       heartbeat_loop := None\<rparr>"

datatype protocol = TCP | UDP

text \<open>
  The constructor. The attributes \<open>init_attributes\<close> assigns do not exist before it
  runs; the record it is applied to gives them the values it is about to assign.
\<close>

definition CMClient :: "protocol \<Rightarrow> exn + cmclient" where
  "CMClient p =
     (let s = init_attributes
                \<lparr>verbose_debug = False, connected = False, key = None, hmac_secret = None,
                 steam_id = None, session_id = None, recv_loop = None,
                 heartbeat_loop = None, trace = [], spawned = 0\<rparr>
      in if p = TCP then Inr s else Inl (ValueError ''Only TCP is supported''))"

text \<open>
  disconnect. Killing a greenlet is recorded and control returns to the caller, as it
  does when the caller is not the greenlet killed. \<open>None.kill()\<close> is an
  AttributeError; the heartbeat handle is tested first, the receive handle is not.
\<close>

definition disconnect :: "cmclient \<Rightarrow> bool \<Rightarrow> (exn + unit) \<times> cmclient" where
  "disconnect s reconnect =
     (let s1 = (if reconnect then snd (spawn s Connect_task) else s);
          s2 = effect s1 Connection_disconnect;
          s3 = (case heartbeat_loop s2 of Some h \<Rightarrow> effect s2 (Kill h) | None \<Rightarrow> s2)
      in case recv_loop s3 of
           None \<Rightarrow> (Inl AttributeError, s3)
         | Some r \<Rightarrow>
             (Inr (), emit (init_attributes (effect s3 (Kill r))) (Name_key ''disconnected'') []))"

subsection \<open>Collaborators\<close>

text \<open>
  The functions cm.py calls in other modules: the EMsg enumeration's lookup by value
  (None where it raises ValueError), the message constructors that deserialize
  (\<open>Msg emsg data extended\<close>, \<open>MsgProto emsg data\<close>), serialization, steam.core.crypto,
  binascii.crc32, reading member 'z' of a zip archive, and the event emitter's
  blocking \<open>wait_event\<close>. While a greenlet waits the others run, so \<open>wait_event\<close>
  gives the emitted message together with the client as it is when the waiter
  resumes; None is a wait that never ends.
\<close>

record env =
  EMsg :: "int \<Rightarrow> emsg option"
  Msg :: "emsg \<Rightarrow> bytes \<Rightarrow> bool \<Rightarrow> exn + msg"
  MsgProto :: "emsg \<Rightarrow> bytes \<Rightarrow> exn + msg"
  serialize :: "msg \<Rightarrow> bytes"
  generate_session_key :: "bytes \<Rightarrow> bytes \<times> bytes"
  crc32 :: "bytes \<Rightarrow> int"
  symmetric_encrypt :: "bytes \<Rightarrow> bytes \<Rightarrow> bytes"
  symmetric_encrypt_HMAC :: "bytes \<Rightarrow> bytes \<Rightarrow> bytes \<Rightarrow> bytes"
  symmetric_decrypt :: "bytes \<Rightarrow> bytes \<Rightarrow> exn + bytes"
  symmetric_decrypt_HMAC :: "bytes \<Rightarrow> bytes \<Rightarrow> bytes \<Rightarrow> exn + bytes"
  ZipFile_read :: "bytes \<Rightarrow> exn + bytes"
  wait_event :: "emsg \<Rightarrow> cmclient \<Rightarrow> (msg \<times> cmclient) option"

text \<open>
  Modelled from the spec: \<open>is_proto\<close> and \<open>clear_proto_bit\<close> (steam.core.msg) are not
  in cm.py. The spec: the top bit of the 32-bit type identifier is the proto flag,
  cleared before the remaining bits are read as the type.
\<close>

definition protobuf_mask :: int where
  "protobuf_mask = 0x80000000"

definition is_proto :: "int \<Rightarrow> bool" where
  "is_proto emsg_id = (and emsg_id protobuf_mask > 0)"

definition clear_proto_bit :: "int \<Rightarrow> int" where
  "clear_proto_bit emsg_id = and emsg_id (not protobuf_mask)"

text \<open>struct.unpack_from("<I", data): struct.error on fewer than four bytes.\<close>

definition unpack_from_I :: "bytes \<Rightarrow> exn + int" where
  "unpack_from_I data =
     (case data of
        b0 # b1 # b2 # b3 # rest \<Rightarrow>
          Inr (uint b0 + 256 * uint b1 + 65536 * uint b2 + 16777216 * uint b3)
      | _ \<Rightarrow> Inl StructError)"

text \<open>Truth of an attribute that is None or a byte string: the string when non-empty.\<close>

definition held :: "bytes option \<Rightarrow> bytes option" where
  "held v = (case v of Some (b # bs) \<Rightarrow> Some (b # bs) | _ \<Rightarrow> None)"

subsection \<open>Sending\<close>

text \<open>
  send_message. Every value of type \<open>msg\<close> is a Msg or a MsgProto, so the isinstance
  test passes. The identity attributes are copied when they are true: an object for
  the account, a non-zero number for the session.
\<close>

definition send_message :: "env \<Rightarrow> cmclient \<Rightarrow> msg \<Rightarrow> cmclient" where
  "send_message env s message =
     (let m1 = (if steam_id s \<noteq> None then message\<lparr>steamID := steam_id s\<rparr> else message);
          m2 = (if session_id s \<noteq> None \<and> session_id s \<noteq> Some 0
                then m1\<lparr>sessionID := session_id s\<rparr> else m1);
          s1 = effect s (Log Debug (if verbose_debug s then ''Outgoing: %s %s''
                                    else ''Outgoing: %s''));
          data = serialize env m2;
          data1 = (case held (key s) of
                     None \<Rightarrow> data
                   | Some k \<Rightarrow>
                       (case held (hmac_secret s) of
                          Some h \<Rightarrow> symmetric_encrypt_HMAC env data k h
                        | None \<Rightarrow> symmetric_encrypt env data k))
      in effect s1 (Put_message data1))"

subsection \<open>Parsing a received message\<close>

text \<open>
  The middle of _parse_message: the local variable \<open>msg\<close> after the constructors have
  run (None when it was never assigned), or the exception that left the function.
  Only the constructors of the second branch are inside the try.
\<close>

definition deserialize ::
  "env \<Rightarrow> cmclient \<Rightarrow> emsg \<Rightarrow> int \<Rightarrow> bytes \<Rightarrow> exn + (msg option \<times> cmclient)" where
  "deserialize env s emsg emsg_id message =
     (if emsg = ChannelEncryptRequest \<or> emsg = ChannelEncryptResponse
           \<or> emsg = ChannelEncryptResult
      then (case Msg env emsg message False of
              Inl e \<Rightarrow> Inl e
            | Inr m \<Rightarrow> Inr (Some m, s))
      else (case (if is_proto emsg_id then MsgProto env emsg message
                  else Msg env emsg message True) of
              Inl e \<Rightarrow>
                Inr (None,
                     effect (effect s (Log Fatal ''Failed to deserialize message: %s (is_proto: %s)''))
                       (Log_exception e))
            | Inr m \<Rightarrow> Inr (Some m, s)))"

definition parse_message :: "env \<Rightarrow> cmclient \<Rightarrow> bytes \<Rightarrow> (exn + unit) \<times> cmclient" where
  "parse_message env s message =
     (if \<not> connected s then (Inr (), s)
      else
        (case unpack_from_I message of
           Inl e \<Rightarrow> (Inl e, s)
         | Inr emsg_id \<Rightarrow>
             (case EMsg env (clear_proto_bit emsg_id) of
                None \<Rightarrow> (Inl (ValueError ''not a valid EMsg''), s)
              | Some emsg \<Rightarrow>
                  (case deserialize env s emsg emsg_id message of
                     Inl e \<Rightarrow> (Inl e, s)
                   | Inr (None, s1) \<Rightarrow> (Inl (UnboundLocalError ''msg''), s1)
                   | Inr (Some m, s1) \<Rightarrow>
                       (Inr (),
                        emit (effect s1 (Log Debug (if verbose_debug s1 then ''Incoming: %s %s''
                                                    else ''Incoming: %s'')))
                          (EMsg_key emsg) [m])))))"

subsection \<open>The receive loop\<close>

text \<open>
  One call of connection.get_message(timeout=1): queue.Empty, with what
  event_connected.is_set() says then, or a message.
\<close>

datatype poll = Empty bool | Message bytes

datatype control = Continue | Returned | Raised exn

definition after_parse :: "(exn + unit) \<times> cmclient \<Rightarrow> control \<times> cmclient" where
  "after_parse r = (case r of (Inl e, s) \<Rightarrow> (Raised e, s) | (Inr u, s) \<Rightarrow> (Continue, s))"

text \<open>One pass through the body of the loop of _recv_messages.\<close>

definition recv_step :: "env \<Rightarrow> cmclient \<Rightarrow> poll \<Rightarrow> control \<times> cmclient" where
  "recv_step env s p =
     (case p of
        Empty is_set \<Rightarrow>
          (if \<not> is_set then (Returned, snd (spawn s Disconnect_task)) else (Continue, s))
      | Message message \<Rightarrow>
          (case held (key s) of
             None \<Rightarrow> after_parse (parse_message env s message)
           | Some k \<Rightarrow>
               (case held (hmac_secret s) of
                  Some h \<Rightarrow>
                    (case symmetric_decrypt_HMAC env message k h of
                       Inl (RuntimeError t) \<Rightarrow>
                         (Returned,
                          snd (spawn (effect s (Log_exception (RuntimeError t))) Disconnect_task))
                     | Inl e \<Rightarrow> (Raised e, s)
                     | Inr m \<Rightarrow> after_parse (parse_message env s m))
                | None \<Rightarrow>
                    (case symmetric_decrypt env message k of
                       Inl e \<Rightarrow> (Raised e, s)
                     | Inr m \<Rightarrow> after_parse (parse_message env s m)))))"

text \<open>
  The loop over the results of successive get_message calls. With no result left the
  loop is still running: Continue.
\<close>

fun recv_messages :: "env \<Rightarrow> cmclient \<Rightarrow> poll list \<Rightarrow> control \<times> cmclient" where
  "recv_messages env s [] = (Continue, s)"
| "recv_messages env s (p # ps) =
     (case recv_step env s p of
        (Continue, s1) \<Rightarrow> recv_messages env s1 ps
      | (c, s1) \<Rightarrow> (c, s1))"

subsection \<open>The handlers\<close>

text \<open>
  The response of _handle_encrypt_request: a new Msg of type ChannelEncryptResponse
  whose body has the encrypted key and its CRC-32, masked to 32 bits.
\<close>

definition encrypt_response :: "env \<Rightarrow> bytes \<Rightarrow> msg" where
  "encrypt_response env resp_key =
     \<lparr>msg_type = ChannelEncryptResponse, proto = False,
      header = \<lparr>steamid = 0, client_sessionid = 0\<rparr>,
      steamID = None, sessionID = None,
      body = ChannelEncryptResponse_body resp_key (and (crc32 env resp_key) 0xffffffff)\<rparr>"

text \<open>
  _handle_encrypt_request. Reading an attribute the body does not have is an
  AttributeError, which the handler's try does not catch. The result is None when
  the wait for the encrypt-result never ends.
\<close>

definition handle_encrypt_request ::
  "env \<Rightarrow> cmclient \<Rightarrow> msg \<Rightarrow> ((exn + unit) \<times> cmclient) option" where
  "handle_encrypt_request env s msg =
     (let s1 = effect s (Log Debug ''Securing channel'')
      in case body msg of
           ChannelEncryptRequest_body protocolVersion universe challenge \<Rightarrow>
             (if protocolVersion \<noteq> 1 then
                Some (Inr (),
                      snd (spawn (effect s1 (Log_exception (RuntimeError ''Unsupported protocol version'')))
                             Disconnect_task))
              else if universe \<noteq> Public then
                Some (Inr (),
                      snd (spawn (effect s1 (Log_exception (RuntimeError ''Unsupported universe'')))
                             Disconnect_task))
              else
                (let (skey, resp_key) = generate_session_key env challenge;
                     resp = encrypt_response env resp_key;
                     s2 = send_message env s1 resp
                 in case wait_event env ChannelEncryptResult s2 of
                      None \<Rightarrow> None
                    | Some (result, s3) \<Rightarrow>
                        (case body result of
                           ChannelEncryptResult_body eresult \<Rightarrow>
                             (if eresult \<noteq> OK then
                                Some (Inr (),
                                      snd (spawn (effect s3 (Log Debug ''Failed to secure channel: %s''))
                                             Disconnect_task))
                              else
                                (let s4 = effect s3 (Log Debug ''Channel secured'');
                                     s5 = s4\<lparr>key := Some skey\<rparr>;
                                     s6 = (if challenge \<noteq> []
                                           then s5\<lparr>hmac_secret := Some (take 16 skey)\<rparr>
                                           else s5)
                                 in Some (Inr (), emit s6 (Name_key ''channel_secured'') [])))
                         | _ \<Rightarrow> Some (Inl AttributeError, s3))))
         | _ \<Rightarrow> Some (Inl AttributeError, s1))"

text \<open>
  The loop of _handle_multi. An exception of _parse_message leaves the loop. The
  slices are Python's: past the end they are cut short.
\<close>

function multi_loop :: "env \<Rightarrow> cmclient \<Rightarrow> bytes \<Rightarrow> (exn + unit) \<times> cmclient" where
  "multi_loop env s data =
     (if length data > 0 then
        (case unpack_from_I data of
           Inl e \<Rightarrow> (Inl e, s)
         | Inr sz \<Rightarrow>
             (case parse_message env s (take (nat sz) (drop 4 data)) of
                (Inl e, s1) \<Rightarrow> (Inl e, s1)
              | (Inr u, s1) \<Rightarrow> multi_loop env s1 (drop (4 + nat sz) data)))
      else (Inr (), s))"
  by pat_completeness auto
termination
  by (relation "measure (\<lambda>(env, s, data). length data)") auto

declare multi_loop.simps [simp del]

definition handle_multi :: "env \<Rightarrow> cmclient \<Rightarrow> msg \<Rightarrow> (exn + unit) \<times> cmclient" where
  "handle_multi env s msg =
     (let s1 = effect s (Log Debug ''Unpacking CMsgMulti'')
      in case body msg of
           CMsgMulti size_unzipped message_body \<Rightarrow>
             (if size_unzipped \<noteq> 0 then
                (let s2 = effect s1 (Log Debug ''Unzipping body'')
                 in case ZipFile_read env message_body of
                      Inl e \<Rightarrow> (Inl e, s2)
                    | Inr data \<Rightarrow>
                        (if int (length data) \<noteq> size_unzipped then
                           (Inr (),
                            snd (spawn (effect s2 (Log Fatal ''Unzipped size mismatch''))
                                   Disconnect_task))
                         else multi_loop env s2 data))
              else multi_loop env s1 message_body)
         | _ \<Rightarrow> (Inl AttributeError, s1))"

text \<open>_handle_logon. A greenlet handle that is not None counts as true.\<close>

definition handle_logon :: "cmclient \<Rightarrow> msg \<Rightarrow> (exn + unit) \<times> cmclient" where
  "handle_logon s msg =
     (case body msg of
        CMsgClientLogonResponse result_code out_of_game_heartbeat_seconds \<Rightarrow>
          (if result_code = TryAnotherCM \<or> result_code = ServiceUnavailable then
             disconnect s True
           else if result_code = OK then
             (let s1 = effect s (Log Debug ''Logon completed'');
                  s2 = s1\<lparr>steam_id := Some (SteamID (steamid (header msg)))\<rparr>;
                  s3 = s2\<lparr>session_id := Some (client_sessionid (header msg))\<rparr>;
                  s4 = (case heartbeat_loop s3 of
                          Some h \<Rightarrow> effect s3 (Kill h)
                        | None \<Rightarrow> s3);
                  s5 = effect s4 (Log Debug ''Heartbeat started.'');
                  interval = out_of_game_heartbeat_seconds;
                  (g, s6) = spawn s5 (Heartbeat_task interval)
              in (Inr (), s6\<lparr>heartbeat_loop := Some g\<rparr>))
           else (Inr (), s))
      | _ \<Rightarrow> (Inl AttributeError, s))"

subsection \<open>Notions the properties are stated with\<close>

text \<open>The events a call added to the trace.\<close>

definition added :: "cmclient \<Rightarrow> cmclient \<Rightarrow> event list" where
  "added s s1 = drop (length (trace s)) (trace s1)"

fun is_Emit :: "event \<Rightarrow> bool" where
  "is_Emit (Emit k args) = True"
| "is_Emit e = False"

fun is_Put_message :: "event \<Rightarrow> bool" where
  "is_Put_message (Put_message d) = True"
| "is_Put_message e = False"

fun is_Fatal :: "event \<Rightarrow> bool" where
  "is_Fatal (Log Fatal t) = True"
| "is_Fatal e = False"

fun is_Spawn_heartbeat :: "event \<Rightarrow> bool" where
  "is_Spawn_heartbeat (Spawn g (Heartbeat_task i)) = True"
| "is_Spawn_heartbeat e = False"

fun is_Spawn_connect :: "event \<Rightarrow> bool" where
  "is_Spawn_connect (Spawn g Connect_task) = True"
| "is_Spawn_connect e = False"

fun is_Spawn_disconnect :: "event \<Rightarrow> bool" where
  "is_Spawn_disconnect (Spawn g Disconnect_task) = True"
| "is_Spawn_disconnect e = False"

text \<open>
  The heartbeat greenlets running after a trace, given those running before it:
  spawning adds one, killing a greenlet removes it.
\<close>

fun heartbeats :: "nat list \<Rightarrow> event list \<Rightarrow> nat list" where
  "heartbeats hs [] = hs"
| "heartbeats hs (Spawn g (Heartbeat_task i) # es) = heartbeats (hs @ [g]) es"
| "heartbeats hs (Kill g # es) = heartbeats (removeAll g hs) es"
| "heartbeats hs (e # es) = heartbeats hs es"

text \<open>At no point of the trace do two heartbeat greenlets run.\<close>

fun never_two :: "nat list \<Rightarrow> event list \<Rightarrow> bool" where
  "never_two hs [] = (length hs \<le> 1)"
| "never_two hs (e # es) = (length hs \<le> 1 \<and> never_two (heartbeats hs [e]) es)"

text \<open>
  The packed form of a Multi body, in the spec's words: each sub-envelope preceded by
  its length as four little-endian bytes.
\<close>

definition pack_I :: "nat \<Rightarrow> bytes" where
  "pack_I n = [of_nat n, of_nat (n div 256), of_nat (n div 65536), of_nat (n div 16777216)]"

definition frame :: "bytes \<Rightarrow> bytes" where
  "frame sub = pack_I (length sub) @ sub"

text \<open>
  Parsing sub-envelopes one after the other, as the statement
  \<open>for sub in subs: self._parse_message(sub)\<close> does.
\<close>

fun parse_each :: "env \<Rightarrow> cmclient \<Rightarrow> bytes list \<Rightarrow> (exn + unit) \<times> cmclient" where
  "parse_each env s [] = (Inr (), s)"
| "parse_each env s (sub # subs) =
     (case parse_message env s sub of
        (Inl e, s1) \<Rightarrow> (Inl e, s1)
      | (Inr u, s1) \<Rightarrow> parse_each env s1 subs)"

subsection \<open>A sample environment\<close>

text \<open>
  Concrete collaborators to run the definitions on: an enumeration with six members,
  constructors that reject data shorter than their header, a decryption that rejects
  frames starting with a zero byte, an archive reader that strips one byte, and a
  wait that resumes at once with a successful encrypt-result.
\<close>

definition sample_EMsg :: "int \<Rightarrow> emsg option" where
  "sample_EMsg n =
     (if n = 1 then Some Multi
      else if n = 703 then Some ClientHeartBeat
      else if n = 751 then Some ClientLogOnResponse
      else if n = 1303 then Some ChannelEncryptRequest
      else if n = 1304 then Some ChannelEncryptResponse
      else if n = 1305 then Some ChannelEncryptResult
      else None)"

definition sample_msg :: "emsg \<Rightarrow> bool \<Rightarrow> body \<Rightarrow> msg" where
  "sample_msg t p b =
     \<lparr>msg_type = t, proto = p, header = \<lparr>steamid = 76561197960265729, client_sessionid = 42\<rparr>,
      steamID = None, sessionID = None, body = b\<rparr>"

definition sample_Msg :: "emsg \<Rightarrow> bytes \<Rightarrow> bool \<Rightarrow> exn + msg" where
  "sample_Msg t data extended =
     (if length data < (if extended then 36 else 20) then Inl StructError
      else Inr (sample_msg t False (Body_other (drop (if extended then 36 else 20) data))))"

definition sample_MsgProto :: "emsg \<Rightarrow> bytes \<Rightarrow> exn + msg" where
  "sample_MsgProto t data =
     (if length data < 8 then Inl StructError
      else Inr (sample_msg t True (Body_other (drop 8 data))))"

definition sample_env :: env where
  "sample_env =
     \<lparr>EMsg = sample_EMsg, Msg = sample_Msg, MsgProto = sample_MsgProto,
      serialize = (\<lambda>m. []),
      generate_session_key = (\<lambda>challenge. (replicate 32 1, replicate 128 2)),
      crc32 = (\<lambda>d. 0),
      symmetric_encrypt = (\<lambda>d k. d),
      symmetric_encrypt_HMAC = (\<lambda>d k h. d),
      symmetric_decrypt = (\<lambda>d k. Inr d),
      symmetric_decrypt_HMAC =
        (\<lambda>d k h. if take 1 d = [0] then Inl (RuntimeError ''HMAC mismatch'') else Inr d),
      ZipFile_read = (\<lambda>d. case d of [] \<Rightarrow> Inl (Other_exception 0) | b # bs \<Rightarrow> Inr bs),
      wait_event = (\<lambda>t s. Some (sample_msg t False (ChannelEncryptResult_body OK), s))\<rparr>"

text \<open>A client after connect: connected, with a receive greenlet and nothing else.\<close>

definition sample_client :: cmclient where
  "sample_client =
     \<lparr>verbose_debug = False, connected = True, key = None, hmac_secret = None,
      steam_id = None, session_id = None, recv_loop = Some 0,
      heartbeat_loop = None, trace = [], spawned = 1\<rparr>"

section \<open>Properties of disconnect\<close>

text \<open>With a receive greenlet, disconnect returns.\<close>

lemma disconnect_recv_loop:
  "recv_loop s = Some r \<Longrightarrow> fst (disconnect s reconnect) = Inr ()"
  by (simp add: disconnect_def spawn_def effect_def Let_def split: option.splits)

text \<open>
  With a receive greenlet, disconnect leaves every session attribute at its initial
  value, and the last thing it does is emit "disconnected".
\<close>

lemma disconnect_resets:
  "recv_loop s = Some r \<Longrightarrow>
   \<not> connected (snd (disconnect s reconnect)) \<and>
   key (snd (disconnect s reconnect)) = None \<and>
   hmac_secret (snd (disconnect s reconnect)) = None \<and>
   steam_id (snd (disconnect s reconnect)) = None \<and>
   session_id (snd (disconnect s reconnect)) = None \<and>
   recv_loop (snd (disconnect s reconnect)) = None \<and>
   heartbeat_loop (snd (disconnect s reconnect)) = None \<and>
   last (trace (snd (disconnect s reconnect))) = Emit (Name_key ''disconnected'') []"
  by (simp add: disconnect_def spawn_def effect_def emit_def init_attributes_def Let_def
      split: option.splits)

text \<open>
  C7, at a client that was constructed and never connected: disconnect ends with an
  AttributeError at the kill of the receive greenlet, having torn down the connection;
  it does not reach the reset and emits nothing.
\<close>

theorem disconnect_new_client:
  "CMClient TCP =
     Inr \<lparr>verbose_debug = False, connected = False, key = None, hmac_secret = None,
          steam_id = None, session_id = None, recv_loop = None,
          heartbeat_loop = None, trace = [], spawned = 0\<rparr> \<and>
   disconnect \<lparr>verbose_debug = False, connected = False, key = None, hmac_secret = None,
               steam_id = None, session_id = None, recv_loop = None,
               heartbeat_loop = None, trace = [], spawned = 0\<rparr> False =
     (Inl AttributeError,
      \<lparr>verbose_debug = False, connected = False, key = None, hmac_secret = None,
       steam_id = None, session_id = None, recv_loop = None,
       heartbeat_loop = None, trace = [Connection_disconnect], spawned = 0\<rparr>)"
  by (simp add: CMClient_def init_attributes_def disconnect_def effect_def)

text \<open>
  C10: disconnect on a client with no receive greenlet ends with an AttributeError,
  emits nothing and resets nothing. That is the state of a client just constructed,
  and the state a disconnect that returned leaves, so a second disconnect fails. The
  absence of the heartbeat greenlet alone does no harm: with a receive greenlet
  disconnect returns.
\<close>

theorem disconnect_without_recv_loop_raises:
  "(recv_loop s = None \<longrightarrow>
      fst (disconnect s reconnect) = Inl AttributeError \<and>
      \<not> list_ex is_Emit (added s (snd (disconnect s reconnect))) \<and>
      connected (snd (disconnect s reconnect)) = connected s \<and>
      key (snd (disconnect s reconnect)) = key s \<and>
      hmac_secret (snd (disconnect s reconnect)) = hmac_secret s \<and>
      steam_id (snd (disconnect s reconnect)) = steam_id s \<and>
      session_id (snd (disconnect s reconnect)) = session_id s \<and>
      heartbeat_loop (snd (disconnect s reconnect)) = heartbeat_loop s) \<and>
   (recv_loop s \<noteq> None \<longrightarrow>
      fst (disconnect s reconnect) = Inr () \<and>
      fst (disconnect (snd (disconnect s reconnect)) again) = Inl AttributeError) \<and>
   (CMClient TCP = Inr s \<longrightarrow> fst (disconnect s reconnect) = Inl AttributeError)"
  by (auto simp add: disconnect_def spawn_def effect_def emit_def init_attributes_def
      added_def CMClient_def Let_def split: option.splits)

theorem disconnect_without_recv_loop_raises_witness:
  "CMClient TCP =
     Inr \<lparr>verbose_debug = False, connected = False, key = None, hmac_secret = None,
          steam_id = None, session_id = None, recv_loop = None,
          heartbeat_loop = None, trace = [], spawned = 0\<rparr> \<and>
   recv_loop \<lparr>verbose_debug = False, connected = False, key = None, hmac_secret = None,
              steam_id = None, session_id = None, recv_loop = None,
              heartbeat_loop = None, trace = [], spawned = 0\<rparr> = None \<and>
   fst (disconnect \<lparr>verbose_debug = False, connected = False, key = None,
                    hmac_secret = None, steam_id = None, session_id = None,
                    recv_loop = None, heartbeat_loop = None, trace = [], spawned = 0\<rparr>
          False) = Inl AttributeError \<and>
   recv_loop sample_client \<noteq> None \<and>
   heartbeat_loop sample_client = None \<and>
   fst (disconnect sample_client False) = Inr () \<and>
   fst (disconnect (snd (disconnect sample_client False)) False) = Inl AttributeError"
  using
    disconnect_without_recv_loop_raises
      [of "\<lparr>verbose_debug = False, connected = False, key = None, hmac_secret = None,
            steam_id = None, session_id = None, recv_loop = None,
            heartbeat_loop = None, trace = [], spawned = 0\<rparr>" False False]
    disconnect_without_recv_loop_raises [of sample_client False False]
  by (simp add: CMClient_def sample_client_def init_attributes_def)

section \<open>Properties of the logon handler\<close>

lemma added_self_append: "trace s1 = trace s @ es \<Longrightarrow> added s s1 = es"
  by (simp add: added_def)

text \<open>What disconnect adds to the trace.\<close>

lemma disconnect_added:
  "added s (snd (disconnect s reconnect)) =
     (if reconnect then [Spawn (spawned s) Connect_task] else []) @
     [Connection_disconnect] @
     (case heartbeat_loop s of Some h \<Rightarrow> [Kill h] | None \<Rightarrow> []) @
     (case recv_loop s of
        Some r \<Rightarrow> [Kill r, Log Debug ''Emit event: %s'', Emit (Name_key ''disconnected'') []]
      | None \<Rightarrow> [])"
  by (simp add: disconnect_def spawn_def effect_def emit_def init_attributes_def added_def
      Let_def split: option.splits)

text \<open>
  C4: on a logon response whose result is TryAnotherCM or ServiceUnavailable the handler
  does what disconnect(True) does and nothing else: one greenlet running connect is
  spawned, no heartbeat greenlet is spawned, and the account and session identifiers
  are not set from the response (they are reset by the disconnect, or left as they
  were when the disconnect ends at the missing receive greenlet).
\<close>

theorem logon_reconnect:
  assumes "body msg = CMsgClientLogonResponse result_code interval"
    and "result_code = TryAnotherCM \<or> result_code = ServiceUnavailable"
  shows "handle_logon s msg = disconnect s True \<and>
         length (filter is_Spawn_connect (added s (snd (handle_logon s msg)))) = 1 \<and>
         \<not> list_ex is_Spawn_heartbeat (added s (snd (handle_logon s msg))) \<and>
         steam_id (snd (handle_logon s msg)) = (if recv_loop s = None then steam_id s else None) \<and>
         session_id (snd (handle_logon s msg)) = (if recv_loop s = None then session_id s else None) \<and>
         heartbeat_loop (snd (handle_logon s msg)) =
           (if recv_loop s = None then heartbeat_loop s else None)"
proof -
  have eq: "handle_logon s msg = disconnect s True"
    using assms by (auto simp add: handle_logon_def)
  have ev: "length (filter is_Spawn_connect (added s (snd (disconnect s True)))) = 1 \<and>
            \<not> list_ex is_Spawn_heartbeat (added s (snd (disconnect s True)))"
    by (simp add: disconnect_added split: option.splits)
  have at: "steam_id (snd (disconnect s True)) = (if recv_loop s = None then steam_id s else None) \<and>
        session_id (snd (disconnect s True)) = (if recv_loop s = None then session_id s else None) \<and>
        heartbeat_loop (snd (disconnect s True)) =
           (if recv_loop s = None then heartbeat_loop s else None)"
    by (auto simp add: disconnect_def spawn_def effect_def emit_def init_attributes_def
      Let_def split: option.splits)
  show ?thesis using eq ev at by simp
qed

theorem logon_reconnect_witness:
  "body (sample_msg ClientLogOnResponse True (CMsgClientLogonResponse TryAnotherCM 0)) =
     CMsgClientLogonResponse TryAnotherCM 0 \<and>
   body (sample_msg ClientLogOnResponse True (CMsgClientLogonResponse ServiceUnavailable 0)) =
     CMsgClientLogonResponse ServiceUnavailable 0 \<and>
   handle_logon sample_client
     (sample_msg ClientLogOnResponse True (CMsgClientLogonResponse TryAnotherCM 0)) =
     (Inr (),
      \<lparr>verbose_debug = False, connected = False, key = None, hmac_secret = None,
       steam_id = None, session_id = None, recv_loop = None,
       heartbeat_loop = None,
       trace = [Spawn 1 Connect_task, Connection_disconnect, Kill 0,
                Log Debug ''Emit event: %s'', Emit (Name_key ''disconnected'') []],
       spawned = 2\<rparr>) \<and>
   length (filter is_Spawn_connect (added sample_client (snd (handle_logon sample_client
     (sample_msg ClientLogOnResponse True (CMsgClientLogonResponse ServiceUnavailable 0)))))) = 1"
  using logon_reconnect [where msg = "sample_msg ClientLogOnResponse True (CMsgClientLogonResponse TryAnotherCM 0)"
      and result_code = TryAnotherCM and interval = 0 and s = sample_client]
    logon_reconnect [where msg = "sample_msg ClientLogOnResponse True (CMsgClientLogonResponse ServiceUnavailable 0)"
      and result_code = ServiceUnavailable and interval = 0 and s = sample_client]
  by (simp add: sample_msg_def sample_client_def handle_logon_def disconnect_def spawn_def
      effect_def emit_def init_attributes_def added_def Let_def)

text \<open>
  C5: on a logon response whose result is OK the handler returns, the account and
  session identifiers are those of the response header, a heartbeat greenlet the
  client holds is killed before the new one is spawned, and the new one is spawned
  with the interval of the response body. If the heartbeat greenlets running before
  the call are at most the one the client holds, then at no point of the call do two
  run, and afterwards exactly the new one runs.
\<close>

theorem logon_success:
  assumes "body msg = CMsgClientLogonResponse OK interval"
  shows "fst (handle_logon s msg) = Inr () \<and>
         steam_id (snd (handle_logon s msg)) = Some (SteamID (steamid (header msg))) \<and>
         session_id (snd (handle_logon s msg)) = Some (client_sessionid (header msg)) \<and>
         heartbeat_loop (snd (handle_logon s msg)) = Some (spawned s) \<and>
         added s (snd (handle_logon s msg)) =
           [Log Debug ''Logon completed''] @
           (case heartbeat_loop s of Some h \<Rightarrow> [Kill h] | None \<Rightarrow> []) @
           [Log Debug ''Heartbeat started.'', Spawn (spawned s) (Heartbeat_task interval)] \<and>
         (set hs \<subseteq> set_option (heartbeat_loop s) \<and> length hs \<le> 1 \<longrightarrow>
            never_two hs (added s (snd (handle_logon s msg))) \<and>
            heartbeats hs (added s (snd (handle_logon s msg))) = [spawned s])"
proof -
  let ?s1 = "snd (handle_logon s msg)"
  let ?es = "[Log Debug ''Logon completed''] @
           (case heartbeat_loop s of Some h \<Rightarrow> [Kill h] | None \<Rightarrow> []) @
           [Log Debug ''Heartbeat started.'', Spawn (spawned s) (Heartbeat_task interval)]"
  have r: "fst (handle_logon s msg) = Inr ()"
    using assms by (simp add: handle_logon_def spawn_def Let_def)
  have a: "steam_id ?s1 = Some (SteamID (steamid (header msg))) \<and>
           session_id ?s1 = Some (client_sessionid (header msg)) \<and>
           heartbeat_loop ?s1 = Some (spawned s)"
    using assms
    by (simp add: handle_logon_def spawn_def effect_def Let_def split: option.splits)
  have t: "trace ?s1 = trace s @ ?es"
    using assms
    by (simp add: handle_logon_def spawn_def effect_def Let_def split: option.splits)
  have e: "added s ?s1 = ?es"
    using t by (rule added_self_append)
  have h: "never_two hs ?es \<and> heartbeats hs ?es = [spawned s]"
    if "set hs \<subseteq> set_option (heartbeat_loop s)" and "length hs \<le> 1"
  proof (cases "heartbeat_loop s")
    case None
    with that have "hs = []" by simp
    with None show ?thesis by simp
  next
    case (Some g)
    with that have "hs = [] \<or> hs = [g]"
      by (cases hs) auto
    with Some show ?thesis by auto
  qed
  show ?thesis using r a e h by simp
qed

theorem logon_success_witness:
  "body (sample_msg ClientLogOnResponse True (CMsgClientLogonResponse OK 9)) =
     CMsgClientLogonResponse OK 9 \<and>
   set [7] \<subseteq> set_option (heartbeat_loop (sample_client\<lparr>heartbeat_loop := Some 7\<rparr>)) \<and>
   length [7::nat] \<le> 1 \<and>
   snd (handle_logon (sample_client\<lparr>heartbeat_loop := Some 7\<rparr>)
          (sample_msg ClientLogOnResponse True (CMsgClientLogonResponse OK 9))) =
     \<lparr>verbose_debug = False, connected = True, key = None, hmac_secret = None,
      steam_id = Some (SteamID 76561197960265729), session_id = Some 42, recv_loop = Some 0,
      heartbeat_loop = Some 1,
      trace = [Log Debug ''Logon completed'', Kill 7, Log Debug ''Heartbeat started.'',
               Spawn 1 (Heartbeat_task 9)],
      spawned = 2\<rparr> \<and>
   never_two [7] (added (sample_client\<lparr>heartbeat_loop := Some 7\<rparr>)
     (snd (handle_logon (sample_client\<lparr>heartbeat_loop := Some 7\<rparr>)
          (sample_msg ClientLogOnResponse True (CMsgClientLogonResponse OK 9))))) \<and>
   heartbeats [7] (added (sample_client\<lparr>heartbeat_loop := Some 7\<rparr>)
     (snd (handle_logon (sample_client\<lparr>heartbeat_loop := Some 7\<rparr>)
          (sample_msg ClientLogOnResponse True (CMsgClientLogonResponse OK 9))))) = [1]"
  using logon_success [where msg = "sample_msg ClientLogOnResponse True (CMsgClientLogonResponse OK 9)"
      and interval = 9 and hs = "[7]" and s = "sample_client\<lparr>heartbeat_loop := Some 7\<rparr>"]
  by (simp add: sample_msg_def sample_client_def handle_logon_def spawn_def effect_def added_def
      Let_def)

section \<open>Properties of the parse step\<close>




section \<open>Properties of the receive loop\<close>

text \<open>
  C8: when the client holds a key and a secondary secret and the authenticated
  decryption of a received frame raises RuntimeError, that pass of the receive loop
  logs the exception, spawns disconnect and returns: the loop ends there whatever
  frames would follow, and nothing is emitted.
\<close>

theorem recv_integrity_failure:
  assumes "held (key s) = Some k"
    and "held (hmac_secret s) = Some h"
    and "symmetric_decrypt_HMAC env message k h = Inl (RuntimeError t)"
  shows "recv_step env s (Message message) =
           (Returned, snd (spawn (effect s (Log_exception (RuntimeError t))) Disconnect_task)) \<and>
         recv_messages env s (Message message # rest) = recv_step env s (Message message) \<and>
         added s (snd (recv_step env s (Message message))) =
           [Log_exception (RuntimeError t), Spawn (spawned s) Disconnect_task] \<and>
         \<not> list_ex is_Emit (added s (snd (recv_step env s (Message message))))"
proof -
  have r: "recv_step env s (Message message) =
           (Returned, snd (spawn (effect s (Log_exception (RuntimeError t))) Disconnect_task))"
    using assms by (simp add: recv_step_def)
  show ?thesis
    by (simp add: r added_def effect_def spawn_def)
qed

theorem recv_integrity_failure_witness:
  "held (key (sample_client\<lparr>key := Some [1, 2], hmac_secret := Some [1]\<rparr>)) = Some [1, 2] \<and>
   held (hmac_secret (sample_client\<lparr>key := Some [1, 2], hmac_secret := Some [1]\<rparr>)) = Some [1] \<and>
   symmetric_decrypt_HMAC sample_env [0, 9, 9] [1, 2] [1] = Inl (RuntimeError ''HMAC mismatch'') \<and>
   recv_messages sample_env (sample_client\<lparr>key := Some [1, 2], hmac_secret := Some [1]\<rparr>)
     [Message [0, 9, 9], Message [1, 0, 0, 0x80, 0, 0, 0, 0]] =
     (Returned,
      sample_client\<lparr>key := Some [1, 2], hmac_secret := Some [1],
        trace := [Log_exception (RuntimeError ''HMAC mismatch''), Spawn 1 Disconnect_task],
        spawned := 2\<rparr>)"
  using recv_integrity_failure [where s = "sample_client\<lparr>key := Some [1, 2], hmac_secret := Some [1]\<rparr>"
      and k = "[1, 2]" and h = "[1]" and env = sample_env and message = "[0, 9, 9]"
      and t = "''HMAC mismatch''" and rest = "[Message [1, 0, 0, 0x80, 0, 0, 0, 0]]"]
  by (simp add: held_def sample_env_def sample_client_def effect_def spawn_def)

section \<open>Properties of the handshake\<close>

text \<open>
  C6: an encrypt-request whose protocol version is not 1, or whose universe is not
  Public, makes the handler log the exception, spawn disconnect and return. Nothing
  is put on the connection.
\<close>

theorem encrypt_request_rejected:
  assumes "body msg = ChannelEncryptRequest_body protocolVersion universe challenge"
    and "protocolVersion \<noteq> 1 \<or> universe \<noteq> Public"
  shows "\<exists>s1. handle_encrypt_request env s msg = Some (Inr (), s1) \<and>
              added s s1 =
                [Log Debug ''Securing channel'',
                 Log_exception (RuntimeError (if protocolVersion \<noteq> 1
                                              then ''Unsupported protocol version''
                                              else ''Unsupported universe'')),
                 Spawn (spawned s) Disconnect_task] \<and>
              list_ex is_Spawn_disconnect (added s s1) \<and>
              \<not> list_ex is_Put_message (added s s1)"
proof -
  have "handle_encrypt_request env s msg =
          Some (Inr (),
                snd (spawn (effect (effect s (Log Debug ''Securing channel''))
                  (Log_exception (RuntimeError (if protocolVersion \<noteq> 1
                                              then ''Unsupported protocol version''
                                              else ''Unsupported universe'')))) Disconnect_task))"
    using assms by (simp add: handle_encrypt_request_def Let_def)
  then show ?thesis
    by (simp add: effect_def spawn_def added_def)
qed



theorem encrypt_request_rejected_witness:
  "body (sample_msg ChannelEncryptRequest False (ChannelEncryptRequest_body 2 Public [5])) =
     ChannelEncryptRequest_body 2 Public [5] \<and>
   body (sample_msg ChannelEncryptRequest False
           (ChannelEncryptRequest_body 1 (EUniverse_other 2) [5])) =
     ChannelEncryptRequest_body 1 (EUniverse_other 2) [5] \<and>
   handle_encrypt_request sample_env sample_client
     (sample_msg ChannelEncryptRequest False (ChannelEncryptRequest_body 2 Public [5])) =
     Some (Inr (),
           sample_client\<lparr>trace := [Log Debug ''Securing channel'',
                                    Log_exception (RuntimeError ''Unsupported protocol version''),
                                    Spawn 1 Disconnect_task],
                          spawned := 2\<rparr>) \<and>
   handle_encrypt_request sample_env sample_client
     (sample_msg ChannelEncryptRequest False
        (ChannelEncryptRequest_body 1 (EUniverse_other 2) [5])) =
     Some (Inr (),
           sample_client\<lparr>trace := [Log Debug ''Securing channel'',
                                    Log_exception (RuntimeError ''Unsupported universe''),
                                    Spawn 1 Disconnect_task],
                          spawned := 2\<rparr>)"
proof -
  have b1: "body (sample_msg ChannelEncryptRequest False (ChannelEncryptRequest_body 2 Public [5])) =
     ChannelEncryptRequest_body 2 Public [5]"
    by (simp add: sample_msg_def)
  have b2: "body (sample_msg ChannelEncryptRequest False
           (ChannelEncryptRequest_body 1 (EUniverse_other 2) [5])) =
     ChannelEncryptRequest_body 1 (EUniverse_other 2) [5]"
    by (simp add: sample_msg_def)
  have c1: "(2::int) \<noteq> 1 \<or> Public \<noteq> Public" by simp
  have c2: "(1::int) \<noteq> 1 \<or> EUniverse_other 2 \<noteq> Public" by simp
  from encrypt_request_rejected [OF b1 c1, of sample_env sample_client]
  obtain s1 where r1: "handle_encrypt_request sample_env sample_client
     (sample_msg ChannelEncryptRequest False (ChannelEncryptRequest_body 2 Public [5])) =
       Some (Inr (), s1)"
    and a1: "added sample_client s1 =
                [Log Debug ''Securing channel'',
                 Log_exception (RuntimeError ''Unsupported protocol version''),
                 Spawn (spawned sample_client) Disconnect_task]"
    by auto
  from encrypt_request_rejected [OF b2 c2, of sample_env sample_client]
  obtain s2 where r2: "handle_encrypt_request sample_env sample_client
     (sample_msg ChannelEncryptRequest False (ChannelEncryptRequest_body 1 (EUniverse_other 2) [5])) =
       Some (Inr (), s2)"
    and a2: "added sample_client s2 =
                [Log Debug ''Securing channel'',
                 Log_exception (RuntimeError ''Unsupported universe''),
                 Spawn (spawned sample_client) Disconnect_task]"
    by auto
  have e1: "handle_encrypt_request sample_env sample_client
     (sample_msg ChannelEncryptRequest False (ChannelEncryptRequest_body 2 Public [5])) =
     Some (Inr (),
           sample_client\<lparr>trace := [Log Debug ''Securing channel'',
                                    Log_exception (RuntimeError ''Unsupported protocol version''),
                                    Spawn 1 Disconnect_task],
                          spawned := 2\<rparr>)"
    by (simp add: sample_msg_def sample_client_def handle_encrypt_request_def effect_def
        spawn_def)
  have e2: "handle_encrypt_request sample_env sample_client
     (sample_msg ChannelEncryptRequest False
        (ChannelEncryptRequest_body 1 (EUniverse_other 2) [5])) =
     Some (Inr (),
           sample_client\<lparr>trace := [Log Debug ''Securing channel'',
                                    Log_exception (RuntimeError ''Unsupported universe''),
                                    Spawn 1 Disconnect_task],
                          spawned := 2\<rparr>)"
    by (simp add: sample_msg_def sample_client_def handle_encrypt_request_def effect_def
        spawn_def)
  show ?thesis using b1 b2 e1 e2 r1 r2 by simp
qed


text \<open>
  C2: after a valid encrypt-request, when the wait resumes with an encrypt-result
  whose result is OK, the handler returns the client as the wait left it with three
  changes made together: the key is the generated session key, the secondary secret
  is assigned the first 16 bytes of that key exactly when the challenge is not empty
  (otherwise it is left as it was), and the last event is the emission of
  "channel_secured", after both assignments.
\<close>

theorem channel_secured:
  assumes "body msg = ChannelEncryptRequest_body 1 Public challenge"
    and "generate_session_key env challenge = (skey, resp_key)"
    and "wait_event env ChannelEncryptResult
           (send_message env (effect s (Log Debug ''Securing channel''))
              (encrypt_response env resp_key)) = Some (result, s3)"
    and "body result = ChannelEncryptResult_body OK"
  shows "handle_encrypt_request env s msg =
           Some (Inr (),
                 s3\<lparr>key := Some skey,
                    hmac_secret := (if challenge \<noteq> [] then Some (take 16 skey)
                                    else hmac_secret s3),
                    trace := trace s3 @
                      [Log Debug ''Channel secured'', Log Debug ''Emit event: %s'',
                       Emit (Name_key ''channel_secured'') []]\<rparr>)"
  using assms
  by (simp add: handle_encrypt_request_def effect_def emit_def Let_def)


theorem channel_secured_witness:
  "body (sample_msg ChannelEncryptRequest False (ChannelEncryptRequest_body 1 Public [5])) =
     ChannelEncryptRequest_body 1 Public [5] \<and>
   generate_session_key sample_env [5] = (replicate 32 1, replicate 128 2) \<and>
   wait_event sample_env ChannelEncryptResult
     (send_message sample_env (effect sample_client (Log Debug ''Securing channel''))
        (encrypt_response sample_env (replicate 128 2))) =
     Some (sample_msg ChannelEncryptResult False (ChannelEncryptResult_body OK),
           sample_client\<lparr>trace := [Log Debug ''Securing channel'', Log Debug ''Outgoing: %s'',
                                    Put_message []]\<rparr>) \<and>
   body (sample_msg ChannelEncryptResult False (ChannelEncryptResult_body OK)) =
     ChannelEncryptResult_body OK \<and>
   handle_encrypt_request sample_env sample_client
     (sample_msg ChannelEncryptRequest False (ChannelEncryptRequest_body 1 Public [5])) =
     Some (Inr (),
           sample_client\<lparr>key := Some (replicate 32 1),
             hmac_secret := Some (replicate 16 1),
             trace := [Log Debug ''Securing channel'', Log Debug ''Outgoing: %s'',
                       Put_message [], Log Debug ''Channel secured'',
                       Log Debug ''Emit event: %s'', Emit (Name_key ''channel_secured'') []]\<rparr>)"
proof -
  have h1: "body (sample_msg ChannelEncryptRequest False (ChannelEncryptRequest_body 1 Public [5])) =
     ChannelEncryptRequest_body 1 Public [5]"
    by (simp add: sample_msg_def)
  have h2: "generate_session_key sample_env [5] = (replicate 32 1, replicate 128 2)"
    by (simp add: sample_env_def)
  have h3: "wait_event sample_env ChannelEncryptResult
     (send_message sample_env (effect sample_client (Log Debug ''Securing channel''))
        (encrypt_response sample_env (replicate 128 2))) =
     Some (sample_msg ChannelEncryptResult False (ChannelEncryptResult_body OK),
           sample_client\<lparr>trace := [Log Debug ''Securing channel'', Log Debug ''Outgoing: %s'',
                                    Put_message []]\<rparr>)"
    by (simp add: sample_env_def sample_client_def send_message_def effect_def held_def)
  have h4: "body (sample_msg ChannelEncryptResult False (ChannelEncryptResult_body OK)) =
     ChannelEncryptResult_body OK"
    by (simp add: sample_msg_def)
  show ?thesis
    using h1 h2 h3 h4 channel_secured [OF h1 h2 h3 h4]
    by (simp add: sample_client_def)
qed

section \<open>Properties of the Multi handler\<close>

text \<open>
  C3: for a Multi body with a non-zero declared size whose archive member was read,
  a member of another length makes the handler log "Unzipped size mismatch" at level
  fatal, spawn disconnect and return without parsing or emitting anything; a member
  of the declared length is what the loop unpacks.
\<close>

theorem multi_unzip:
  assumes "body msg = CMsgMulti size_unzipped message_body"
    and "size_unzipped \<noteq> 0"
    and "ZipFile_read env message_body = Inr data"
  shows "(int (length data) \<noteq> size_unzipped \<longrightarrow>
            (\<exists>s1. handle_multi env s msg = (Inr (), s1) \<and>
                  added s s1 =
                    [Log Debug ''Unpacking CMsgMulti'', Log Debug ''Unzipping body'',
                     Log Fatal ''Unzipped size mismatch'', Spawn (spawned s) Disconnect_task] \<and>
                  list_ex is_Fatal (added s s1) \<and>
                  list_ex is_Spawn_disconnect (added s s1) \<and>
                  \<not> list_ex is_Emit (added s s1))) \<and>
         (int (length data) = size_unzipped \<longrightarrow>
            handle_multi env s msg =
              multi_loop env
                (effect (effect s (Log Debug ''Unpacking CMsgMulti'')) (Log Debug ''Unzipping body''))
                data)"
proof -
  have m: "handle_multi env s msg =
             (Inr (),
              snd (spawn (effect (effect (effect s (Log Debug ''Unpacking CMsgMulti''))
                                    (Log Debug ''Unzipping body''))
                            (Log Fatal ''Unzipped size mismatch''))
                     Disconnect_task))"
    if "int (length data) \<noteq> size_unzipped"
    using assms that by (simp add: handle_multi_def Let_def)
  have e: "handle_multi env s msg =
              multi_loop env
                (effect (effect s (Log Debug ''Unpacking CMsgMulti'')) (Log Debug ''Unzipping body''))
                data"
    if "int (length data) = size_unzipped"
    using assms that by (simp add: handle_multi_def Let_def)
  show ?thesis
    using m e by (simp add: effect_def spawn_def added_def)
qed


theorem multi_unzip_witness:
  "body (sample_msg Multi True (CMsgMulti 5 [0, 1, 2, 3])) = CMsgMulti 5 [0, 1, 2, 3] \<and>
   (5 :: int) \<noteq> 0 \<and>
   ZipFile_read sample_env [0, 1, 2, 3] = Inr [1, 2, 3] \<and>
   int (length [1 :: byte, 2, 3]) \<noteq> 5 \<and>
   handle_multi sample_env sample_client (sample_msg Multi True (CMsgMulti 5 [0, 1, 2, 3])) =
     (Inr (),
      sample_client\<lparr>trace := [Log Debug ''Unpacking CMsgMulti'', Log Debug ''Unzipping body'',
                               Log Fatal ''Unzipped size mismatch'', Spawn 1 Disconnect_task],
                     spawned := 2\<rparr>) \<and>
   body (sample_msg Multi True
           (CMsgMulti 12 [0, 8, 0, 0, 0, 1, 0, 0, 0x80, 0, 0, 0, 0])) =
     CMsgMulti 12 [0, 8, 0, 0, 0, 1, 0, 0, 0x80, 0, 0, 0, 0] \<and>
   (12 :: int) \<noteq> 0 \<and>
   ZipFile_read sample_env [0, 8, 0, 0, 0, 1, 0, 0, 0x80, 0, 0, 0, 0] =
     Inr [8, 0, 0, 0, 1, 0, 0, 0x80, 0, 0, 0, 0] \<and>
   int (length [8 :: byte, 0, 0, 0, 1, 0, 0, 0x80, 0, 0, 0, 0]) = 12 \<and>
   handle_multi sample_env sample_client
     (sample_msg Multi True (CMsgMulti 12 [0, 8, 0, 0, 0, 1, 0, 0, 0x80, 0, 0, 0, 0])) =
     (Inr (),
      sample_client\<lparr>trace := [Log Debug ''Unpacking CMsgMulti'', Log Debug ''Unzipping body'',
                               Log Debug ''Incoming: %s'', Log Debug ''Emit event: %s'',
                               Emit (EMsg_key Multi) [sample_msg Multi True (Body_other [])]]\<rparr>)"
proof -
  have b1: "body (sample_msg Multi True (CMsgMulti 5 [0, 1, 2, 3])) = CMsgMulti 5 [0, 1, 2, 3]"
    by (simp add: sample_msg_def)
  have n1: "(5 :: int) \<noteq> 0" by simp
  have z1: "ZipFile_read sample_env [0, 1, 2, 3] = Inr [1, 2, 3]"
    by (simp add: sample_env_def)
  have l1: "int (length [1 :: byte, 2, 3]) \<noteq> 5" by simp
  have b2: "body (sample_msg Multi True
           (CMsgMulti 12 [0, 8, 0, 0, 0, 1, 0, 0, 0x80, 0, 0, 0, 0])) =
     CMsgMulti 12 [0, 8, 0, 0, 0, 1, 0, 0, 0x80, 0, 0, 0, 0]"
    by (simp add: sample_msg_def)
  have n2: "(12 :: int) \<noteq> 0" by simp
  have z2: "ZipFile_read sample_env [0, 8, 0, 0, 0, 1, 0, 0, 0x80, 0, 0, 0, 0] =
     Inr [8, 0, 0, 0, 1, 0, 0, 0x80, 0, 0, 0, 0]"
    by (simp add: sample_env_def)
  have l2: "int (length [8 :: byte, 0, 0, 0, 1, 0, 0, 0x80, 0, 0, 0, 0]) = 12" by simp
  have m: "multi_loop sample_env
             (effect (effect sample_client (Log Debug ''Unpacking CMsgMulti''))
                (Log Debug ''Unzipping body''))
             [8, 0, 0, 0, 1, 0, 0, 0x80, 0, 0, 0, 0] =
     (Inr (),
      sample_client\<lparr>trace := [Log Debug ''Unpacking CMsgMulti'', Log Debug ''Unzipping body'',
                               Log Debug ''Incoming: %s'', Log Debug ''Emit event: %s'',
                               Emit (EMsg_key Multi) [sample_msg Multi True (Body_other [])]]\<rparr>)"
    by (simp add: multi_loop.simps parse_message_def unpack_from_I_def
      sample_env_def sample_client_def clear_proto_bit_def protobuf_mask_def is_proto_def
      sample_EMsg_def deserialize_def sample_MsgProto_def effect_def emit_def)
  from multi_unzip [OF b1 n1 z1, of sample_client] l1
  obtain s1 where r1: "handle_multi sample_env sample_client
                         (sample_msg Multi True (CMsgMulti 5 [0, 1, 2, 3])) = (Inr (), s1)"
    by blast
  have e1: "handle_multi sample_env sample_client
              (sample_msg Multi True (CMsgMulti 5 [0, 1, 2, 3])) =
     (Inr (),
      sample_client\<lparr>trace := [Log Debug ''Unpacking CMsgMulti'', Log Debug ''Unzipping body'',
                               Log Fatal ''Unzipped size mismatch'', Spawn 1 Disconnect_task],
                     spawned := 2\<rparr>)"
    by (simp add: handle_multi_def sample_msg_def sample_env_def sample_client_def effect_def
        spawn_def)
  from multi_unzip [OF b2 n2 z2, of sample_client] l2
  have e2: "handle_multi sample_env sample_client
     (sample_msg Multi True (CMsgMulti 12 [0, 8, 0, 0, 0, 1, 0, 0, 0x80, 0, 0, 0, 0])) =
     multi_loop sample_env
             (effect (effect sample_client (Log Debug ''Unpacking CMsgMulti''))
                (Log Debug ''Unzipping body''))
             [8, 0, 0, 0, 1, 0, 0, 0x80, 0, 0, 0, 0]"
    by blast
  show ?thesis
    using b1 n1 z1 l1 b2 n2 z2 l2 r1 e1 e2 m by simp
qed

text \<open>Four little-endian bytes read back give the number packed.\<close>

lemma uint_byte_of_nat: "uint (of_nat n :: byte) = int (n mod 256)"
  by (simp add: uint_nat unat_of_nat)

lemma le32_digits:
  fixes n :: nat
  assumes "n < 2 ^ 32"
  shows "n mod 256 + 256 * (n div 256 mod 256) + 65536 * (n div 65536 mod 256)
          + 16777216 * (n div 16777216 mod 256) = n"
proof -
  define a where "a = n div 256"
  define b where "b = a div 256"
  define c where "c = b div 256"
  have b_eq: "n div 65536 = b"
    by (simp add: a_def b_def div_mult2_eq [symmetric])
  have c_eq: "n div 16777216 = c"
    by (simp add: a_def b_def c_def div_mult2_eq [symmetric])
  have "c < 256"
    using assms c_eq [symmetric] by (simp add: less_mult_imp_div_less)
  then have c_mod: "c mod 256 = c" by simp
  have n_dec: "n = n mod 256 + 256 * a"
    by (simp add: a_def)
  have a_dec: "a = a mod 256 + 256 * b"
    by (simp add: b_def)
  have b_dec: "b = b mod 256 + 256 * c"
    by (simp add: c_def)
  have "n mod 256 + 256 * (a mod 256) + 65536 * (b mod 256) + 16777216 * c = n"
    using n_dec a_dec b_dec by linarith
  then show ?thesis
    by (simp add: a_def [symmetric] b_eq c_eq c_mod)
qed

lemma le32_digits_int:
  fixes n :: nat
  assumes "n < 2 ^ 32"
  shows "int (n mod 256) + 256 * int (n div 256 mod 256) + 65536 * int (n div 65536 mod 256)
          + 16777216 * int (n div 16777216 mod 256) = int n"
proof -
  have "int (n mod 256 + 256 * (n div 256 mod 256) + 65536 * (n div 65536 mod 256)
          + 16777216 * (n div 16777216 mod 256)) = int n"
    by (rule arg_cong [where f = int]) (rule le32_digits [OF assms])
  then show ?thesis
    by (simp only: of_nat_add of_nat_mult of_nat_numeral)
qed


lemma unpack_pack:
  assumes "n < 2 ^ 32"
  shows "unpack_from_I (pack_I n @ rest) = Inr (int n)"
proof -
  have "unpack_from_I (pack_I n @ rest) =
          Inr (uint (of_nat n :: byte) + 256 * uint (of_nat (n div 256) :: byte)
               + 65536 * uint (of_nat (n div 65536) :: byte)
               + 16777216 * uint (of_nat (n div 16777216) :: byte))"
    unfolding unpack_from_I_def pack_I_def by (simp only: append_Cons list.case)
  also have "\<dots> = Inr (int n)"
    by (simp only: uint_byte_of_nat le32_digits_int [OF assms])
  finally show ?thesis .
qed

lemma length_pack_I: "length (pack_I n) = 4"
  by (simp add: pack_I_def)

text \<open>One pass of the loop takes exactly the first framed sub-envelope.\<close>

lemma multi_loop_frame:
  assumes "length sub < 2 ^ 32"
  shows "multi_loop env s (frame sub @ rest) =
           (case parse_message env s sub of
              (Inl e, s1) \<Rightarrow> (Inl e, s1)
            | (Inr u, s1) \<Rightarrow> multi_loop env s1 rest)"
proof -
  have u: "unpack_from_I (frame sub @ rest) = Inr (int (length sub))"
    using unpack_pack [OF assms, of "sub @ rest"] by (simp add: frame_def)
  have t: "take (length sub) (drop 4 (frame sub @ rest)) = sub"
    by (simp add: frame_def length_pack_I)
  have d: "drop (4 + length sub) (frame sub @ rest) = rest"
    by (simp add: frame_def length_pack_I)
  have l: "0 < length (frame sub @ rest)"
    by (simp add: frame_def length_pack_I)
  show ?thesis
    by (subst multi_loop.simps) (simp only: l u t d if_True sum.case nat_int)
qed

lemma multi_loop_Nil: "multi_loop env s [] = (Inr (), s)"
  by (subst multi_loop.simps) simp

lemma multi_loop_frames:
  "\<forall>sub \<in> set subs. length sub < 2 ^ 32 \<Longrightarrow>
   multi_loop env s (concat (map frame subs)) = parse_each env s subs"
proof (induction subs arbitrary: s)
  case Nil
  then show ?case by (simp add: multi_loop_Nil)
next
  case (Cons sub subs)
  then have len: "length sub < 2 ^ 32" and rest: "\<forall>x \<in> set subs. length x < 2 ^ 32"
    by simp_all
  have "multi_loop env s (concat (map frame (sub # subs))) =
          multi_loop env s (frame sub @ concat (map frame subs))"
    by simp
  also have "\<dots> = (case parse_message env s sub of
                      (Inl e, s1) \<Rightarrow> (Inl e, s1)
                    | (Inr u, s1) \<Rightarrow> multi_loop env s1 (concat (map frame subs)))"
    by (rule multi_loop_frame [OF len])
  also have "\<dots> = parse_each env s (sub # subs)"
    using Cons.IH [OF rest] by (simp split: prod.splits sum.splits)
  finally show ?case .
qed

text \<open>
  C9 as stated fails when the parse step of a sub-envelope raises: the exception
  leaves the loop and the sub-envelopes behind it are not parsed. Two bodies of two
  sub-envelopes each: in the first the leading sub-envelope has a type identifier the
  enumeration does not know, in the second its body does not deserialize. The second
  sub-envelope of both, parsed alone, is emitted; here it never is.
\<close>

theorem multi_unpacks_counterexample:
  "frame [3, 0, 0, 0x80, 0, 0, 0, 0] @ frame [1, 0, 0, 0x80, 0, 0, 0, 0] =
     [8, 0, 0, 0, 3, 0, 0, 0x80, 0, 0, 0, 0, 8, 0, 0, 0, 1, 0, 0, 0x80, 0, 0, 0, 0] \<and>
   multi_loop sample_env sample_client
     [8, 0, 0, 0, 3, 0, 0, 0x80, 0, 0, 0, 0, 8, 0, 0, 0, 1, 0, 0, 0x80, 0, 0, 0, 0] =
     (Inl (ValueError ''not a valid EMsg''), sample_client) \<and>
   frame [1, 0, 0, 0] @ frame [1, 0, 0, 0x80, 0, 0, 0, 0] =
     [4, 0, 0, 0, 1, 0, 0, 0, 8, 0, 0, 0, 1, 0, 0, 0x80, 0, 0, 0, 0] \<and>
   multi_loop sample_env sample_client
     [4, 0, 0, 0, 1, 0, 0, 0, 8, 0, 0, 0, 1, 0, 0, 0x80, 0, 0, 0, 0] =
     (Inl (UnboundLocalError ''msg''),
      sample_client\<lparr>trace := [Log Fatal ''Failed to deserialize message: %s (is_proto: %s)'',
                               Log_exception StructError]\<rparr>) \<and>
   parse_message sample_env sample_client [1, 0, 0, 0x80, 0, 0, 0, 0] =
     (Inr (),
      sample_client\<lparr>trace := [Log Debug ''Incoming: %s'', Log Debug ''Emit event: %s'',
                               Emit (EMsg_key Multi) [sample_msg Multi True (Body_other [])]]\<rparr>)"
  by (simp add: frame_def pack_I_def multi_loop.simps parse_message_def unpack_from_I_def
      sample_env_def sample_client_def clear_proto_bit_def protobuf_mask_def is_proto_def
      sample_EMsg_def deserialize_def sample_Msg_def sample_MsgProto_def effect_def emit_def)

text \<open>
  C9, amended: on an uncompressed Multi body made of N sub-envelopes, each preceded by
  its length as four little-endian bytes, the loop does what parsing the N
  sub-envelopes one after the other does: each is parsed as exactly the bytes after
  its prefix, in packed order, up to the end of the buffer or to the first parse that
  raises. The empty buffer is a normal return with nothing parsed. The handler on a
  body with declared size 0 does the same after its debug line.
\<close>

theorem multi_unpacks:
  assumes "\<forall>sub \<in> set subs. length sub < 2 ^ 32"
  shows "multi_loop env s (concat (map frame subs)) = parse_each env s subs \<and>
         multi_loop env s [] = (Inr (), s) \<and>
         (body msg = CMsgMulti 0 (concat (map frame subs)) \<longrightarrow>
            handle_multi env s msg =
              parse_each env (effect s (Log Debug ''Unpacking CMsgMulti'')) subs)"
  using multi_loop_frames [OF assms] multi_loop_Nil
  by (simp add: handle_multi_def Let_def)

theorem multi_unpacks_witness:
  "length [1 :: byte, 0, 0, 0x80, 0, 0, 0, 0] < 2 ^ 32 \<and>
   length [1 :: byte, 0, 0, 0x80, 0, 0, 0, 0, 7] < 2 ^ 32 \<and>
   concat (map frame [[1, 0, 0, 0x80, 0, 0, 0, 0], [1, 0, 0, 0x80, 0, 0, 0, 0, 7]]) =
     [8, 0, 0, 0, 1, 0, 0, 0x80, 0, 0, 0, 0, 9, 0, 0, 0, 1, 0, 0, 0x80, 0, 0, 0, 0, 7] \<and>
   multi_loop sample_env sample_client
     [8, 0, 0, 0, 1, 0, 0, 0x80, 0, 0, 0, 0, 9, 0, 0, 0, 1, 0, 0, 0x80, 0, 0, 0, 0, 7] =
     (Inr (),
      sample_client\<lparr>trace :=
        [Log Debug ''Incoming: %s'', Log Debug ''Emit event: %s'',
         Emit (EMsg_key Multi) [sample_msg Multi True (Body_other [])],
         Log Debug ''Incoming: %s'', Log Debug ''Emit event: %s'',
         Emit (EMsg_key Multi) [sample_msg Multi True (Body_other [7])]]\<rparr>)"
proof -
  have f: "concat (map frame [[1, 0, 0, 0x80, 0, 0, 0, 0], [1, 0, 0, 0x80, 0, 0, 0, 0, 7]]) =
     [8, 0, 0, 0, 1, 0, 0, 0x80, 0, 0, 0, 0, 9, 0, 0, 0, 1, 0, 0, 0x80, 0, 0, 0, 0, 7]"
    by (simp add: frame_def pack_I_def)
  have h: "\<forall>sub \<in> set [[1 :: byte, 0, 0, 0x80, 0, 0, 0, 0], [1, 0, 0, 0x80, 0, 0, 0, 0, 7]].
             length sub < 2 ^ 32"
    by simp
  have p: "parse_each sample_env sample_client
             [[1, 0, 0, 0x80, 0, 0, 0, 0], [1, 0, 0, 0x80, 0, 0, 0, 0, 7]] =
     (Inr (),
      sample_client\<lparr>trace :=
        [Log Debug ''Incoming: %s'', Log Debug ''Emit event: %s'',
         Emit (EMsg_key Multi) [sample_msg Multi True (Body_other [])],
         Log Debug ''Incoming: %s'', Log Debug ''Emit event: %s'',
         Emit (EMsg_key Multi) [sample_msg Multi True (Body_other [7])]]\<rparr>)"
    by (simp add: parse_message_def unpack_from_I_def
      sample_env_def sample_client_def clear_proto_bit_def protobuf_mask_def is_proto_def
      sample_EMsg_def deserialize_def sample_MsgProto_def effect_def emit_def)
  from multi_unpacks [OF h, of sample_env sample_client]
  have "multi_loop sample_env sample_client
          (concat (map frame [[1, 0, 0, 0x80, 0, 0, 0, 0], [1, 0, 0, 0x80, 0, 0, 0, 0, 7]])) =
        parse_each sample_env sample_client
          [[1, 0, 0, 0x80, 0, 0, 0, 0], [1, 0, 0, 0x80, 0, 0, 0, 0, 7]]"
    by simp
  then show ?thesis
    by (simp only: f p) simp
qed

end
